theory Spec2Isabelle
  imports Main
begin

section \<open>Errors and the allow-list of \<open>handleError\<close>\<close>

text \<open>
  A Go \<open>error\<close> is an interface value. The code distinguishes two kinds: values that
  implement \<open>awserr.Error\<close> (they carry a code and a message) and all others.
  A nil error is \<open>None\<close>.
\<close>

datatype error = AwsErr string string | OtherErr string

text \<open>The \<open>switch awsErr.Code()\<close> of \<open>handleError\<close>, case by case.\<close>

definition handleError :: "error option \<Rightarrow> error option" where
  "handleError err =
     (case err of
        Some (AwsErr code msg) \<Rightarrow>
          (if code = ''NoSuchBucketPolicy'' then None
           else if code = ''NoSuchWebsiteConfiguration'' then None
           else if code = ''NoSuchLifecycleConfiguration'' then None
           else if code = ''ReplicationConfigurationNotFoundError'' then None
           else if code = ''ServerSideEncryptionConfigurationNotFoundError'' then None
           else if code = ''NoSuchCORSConfiguration'' then None
           else err)
      | _ \<Rightarrow> err)"

definition allow_listed :: "string list" where
  "allow_listed =
     [''NoSuchBucketPolicy'', ''NoSuchWebsiteConfiguration'', ''NoSuchLifecycleConfiguration'',
      ''ReplicationConfigurationNotFoundError'',
      ''ServerSideEncryptionConfigurationNotFoundError'', ''NoSuchCORSConfiguration'']"

section \<open>String helpers\<close>

text \<open>Go strings are byte sequences, as \<open>string\<close> is here.\<close>

definition HasPrefix :: "string \<Rightarrow> string \<Rightarrow> bool" where
  "HasPrefix s p = (length p \<le> length s \<and> take (length p) s = p)"

definition HasSuffix :: "string \<Rightarrow> string \<Rightarrow> bool" where
  "HasSuffix s p = (length p \<le> length s \<and> drop (length s - length p) s = p)"

text \<open>\<open>strings.Join\<close>: the elements with the separator between neighbours.\<close>

fun Join :: "string list \<Rightarrow> string \<Rightarrow> string" where
  "Join [] sep = []"
| "Join [x] sep = x"
| "Join (x # y # ys) sep = x @ sep @ Join (y # ys) sep"

text \<open>
  \<open>strings.Split(s, "/")\<close> for a one-byte separator, which is the only way the code
  calls it: the pieces between the separators, one more than there are separators, so
  the result is never empty.
\<close>

fun Split :: "string \<Rightarrow> char \<Rightarrow> string list" where
  "Split [] c = [[]]"
| "Split (x # xs) c =
     (if x = c then [] # Split xs c
      else (case Split xs c of
              [] \<Rightarrow> [[x]]
            | p # ps \<Rightarrow> (x # p) # ps))"

definition dquote :: string where
  "dquote = [CHR 0x22]"

text \<open>\<open>quote\<close>: \<open>fmt.Sprintf("\"%s\"", src)\<close> unless \<open>src\<close> already starts and ends with a quote.\<close>

definition quote :: "string \<Rightarrow> string" where
  "quote src =
     (if HasPrefix src dquote \<and> HasSuffix src dquote then src
      else dquote @ src @ dquote)"

text \<open>
  \<open>joinStringSlice\<close> writes \<open>src[k] = quote(v)\<close> for each index of the slice it was given,
  then joins that slice. The slice shares its array with the caller's, so the model
  returns the array after the loop next to the joined string.
\<close>

function joinStringSlice_loop :: "nat \<Rightarrow> string list \<Rightarrow> string list" where
  "joinStringSlice_loop k src =
     (if k < length src then joinStringSlice_loop (Suc k) (src[k := quote (src ! k)])
      else src)"
  by pat_completeness auto
termination
  by (relation "measure (\<lambda>(k, src). length src - k)") auto

declare joinStringSlice_loop.simps [simp del]

definition joinStringSlice :: "string \<Rightarrow> string list \<Rightarrow> string list \<times> string" where
  "joinStringSlice sep src =
     (let src' = joinStringSlice_loop 0 src in (src', Join src' sep))"

section \<open>Pointers, nil and panics\<close>

text \<open>
  A Go pointer to an immutable scalar (\<open>*string\<close>, \<open>*bool\<close>, \<open>*int64\<close>) that the code only
  copies, tests against nil and reads is modelled by \<open>option\<close>: \<open>None\<close> is nil and
  \<open>Some v\<close> a pointer to \<open>v\<close>. A pointer to a struct is an \<open>option\<close> of the record, and a
  slice that the code tests against nil is an \<open>option\<close> of a list.

  The one place where the code compares pointers themselves is the key of
  \<open>Instance.Tags\<close>, a \<open>map[*string]*string\<close>. The key pointer of a tag therefore keeps
  the address of its allocation next to the string stored there.

  Dereferencing nil, or indexing outside a slice, is a runtime panic. Nothing in the
  code recovers from one, so a panic is a result of its own, apart from the \<open>error\<close>
  values the functions return.
\<close>

datatype panic = NilDereference | IndexOutOfRange

datatype strref = StrRef (address: nat) (pointee: string)

definition ptr_eq :: "strref option \<Rightarrow> strref option \<Rightarrow> bool" where
  "ptr_eq p q = (map_option address p = map_option address q)"

definition StringValue :: "string option \<Rightarrow> string" where
  "StringValue p = (case p of None \<Rightarrow> [] | Some s \<Rightarrow> s)"

definition Int64Value :: "int option \<Rightarrow> int" where
  "Int64Value p = (case p of None \<Rightarrow> 0 | Some n \<Rightarrow> n)"

definition StringValueSlice :: "string option list \<Rightarrow> string list" where
  "StringValueSlice src = map StringValue src"

text \<open>\<open>strings.Compare\<close>: bytewise lexicographic comparison, \<open>-1\<close>, \<open>0\<close> or \<open>1\<close>.\<close>

fun Compare :: "string \<Rightarrow> string \<Rightarrow> int" where
  "Compare [] [] = 0"
| "Compare [] (y # ys) = -1"
| "Compare (x # xs) [] = 1"
| "Compare (x # xs) (y # ys) =
     (if (of_char x :: nat) < of_char y then -1
      else if (of_char y :: nat) < of_char x then 1
      else Compare xs ys)"

text \<open>\<open>append\<close> on a slice that may be nil.\<close>

definition append_slice :: "'a list option \<Rightarrow> 'a \<Rightarrow> 'a list option" where
  "append_slice s x = Some ((case s of None \<Rightarrow> [] | Some xs \<Rightarrow> xs) @ [x])"

section \<open>The provider's response types\<close>

text \<open>
  The fields of the SDK structs that the code reads. Field names are the SDK's; where
  two structs share a field name the struct is prefixed.
\<close>

record ec2_IamInstanceProfile =
  Arn :: "string option"

record ec2_Monitoring =
  Monitoring_State :: "string option"

record ec2_InstanceState =
  Code :: "int option"

record ec2_GroupIdentifier =
  GroupName :: "string option"

record ec2_Tag =
  Key :: "strref option"
  Value :: "string option"

record ec2_Instance =
  ec2_EbsOptimized :: "bool option"
  ec2_IamInstanceProfile :: "ec2_IamInstanceProfile option"
  ec2_ImageId :: "string option"
  ec2_InstanceId :: "string option"
  ec2_InstanceType :: "string option"
  ec2_KeyName :: "string option"
  ec2_Monitoring :: "ec2_Monitoring option"
  ec2_SecurityGroups :: "ec2_GroupIdentifier option list option"
  ec2_SourceDestCheck :: "bool option"
  ec2_State :: "ec2_InstanceState option"
  ec2_SubnetId :: "string option"
  ec2_VpcId :: "string option"
  ec2_Tags :: "ec2_Tag option list option"

record ec2_Reservation =
  rsv_Instances :: "ec2_Instance option list option"

record DescribeInstancesInput =
  in_NextToken :: "string option"

record DescribeInstancesOutput =
  out_NextToken :: "string option"
  Reservations :: "ec2_Reservation option list"

section \<open>\<open>Instance\<close> and its mapping from the response\<close>

text \<open>
  \<open>Tags\<close> is the Go map \<open>map[*string]*string\<close>: a list of entries with pairwise distinct
  key pointers, \<open>None\<close> while the map is nil.
\<close>

type_synonym tagmap = "(strref option \<times> string option) list"

record Instance =
  EbsOptimized :: "bool option"
  IamInstanceProfile :: "string option"
  ImageID :: "string option"
  InstanceID :: "string option"
  InstanceType :: "string option"
  KeyName :: "string option"
  Monitoring :: "bool option"
  SecurityGroups :: "string option list option"
  SourceDestCheck :: "bool option"
  SubnetID :: "string option"
  VpcID :: "string option"
  Tags :: "tagmap option"

type_synonym Instances = "Instance list"

text \<open>The zero value \<open>Instance{}\<close>.\<close>

definition Instance_zero :: Instance where
  "Instance_zero =
     \<lparr>EbsOptimized = None, IamInstanceProfile = None, ImageID = None, InstanceID = None,
      InstanceType = None, KeyName = None, Monitoring = None, SecurityGroups = None,
      SourceDestCheck = None, SubnetID = None, VpcID = None, Tags = None\<rparr>"

text \<open>\<open>m[k] = v\<close> on a map keyed by pointer: the entry with the same pointer is overwritten.\<close>

fun map_assign :: "tagmap \<Rightarrow> strref option \<Rightarrow> string option \<Rightarrow> tagmap" where
  "map_assign [] k v = [(k, v)]"
| "map_assign ((k', v') # m) k v =
     (if ptr_eq k' k then (k', v) # m else (k', v') # map_assign m k v)"

fun map_index :: "tagmap \<Rightarrow> strref option \<Rightarrow> string option option" where
  "map_index [] k = None"
| "map_index ((k', v') # m) k = (if ptr_eq k' k then Some v' else map_index m k)"

text \<open>\<open>tmp := strings.Split(arn, "/"); tmp[len(tmp)-1]\<close>\<close>

definition profile_name :: "string \<Rightarrow> panic + string" where
  "profile_name arn =
     (let tmp = Split arn (CHR ''/'')
      in if tmp = [] then Inl IndexOutOfRange else Inr (tmp ! (length tmp - 1)))"

text \<open>
  \<open>Instance.set\<close> is modelled block by block, in the order of the source; each block
  takes the receiver as it is before the block and returns it as it is after, or the
  panic that ends the call.

  First block: \<open>if src.IamInstanceProfile != nil && src.IamInstanceProfile.Arn != nil\<close>.
\<close>

definition set_IamInstanceProfile :: "Instance \<Rightarrow> ec2_Instance \<Rightarrow> panic + Instance" where
  "set_IamInstanceProfile i src =
     (case ec2_IamInstanceProfile src of
        None \<Rightarrow> Inr i
      | Some prof \<Rightarrow>
          (case Arn prof of
             None \<Rightarrow> Inr i
           | Some arn \<Rightarrow>
               (case profile_name (StringValue (Some arn)) of
                  Inl p \<Rightarrow> Inl p
                | Inr name \<Rightarrow> Inr (i\<lparr>IamInstanceProfile := Some name\<rparr>))))"

text \<open>The \<open>if\<close> on \<open>src.Monitoring.State\<close>, which dereferences \<open>src.Monitoring\<close>.\<close>

definition set_Monitoring :: "Instance \<Rightarrow> ec2_Instance \<Rightarrow> panic + Instance" where
  "set_Monitoring i src =
     (case ec2_Monitoring src of
        None \<Rightarrow> Inl NilDereference
      | Some mon \<Rightarrow>
          if Compare (StringValue (Monitoring_State mon)) ''disabled'' = 0
          then Inr (i\<lparr>Monitoring := Some False\<rparr>)
          else Inr (i\<lparr>Monitoring := Some True\<rparr>))"

text \<open>The loop over \<open>src.SecurityGroups\<close>; \<open>sg.GroupName\<close> dereferences \<open>sg\<close>.\<close>

fun append_SecurityGroups :: "Instance \<Rightarrow> ec2_GroupIdentifier option list \<Rightarrow> panic + Instance" where
  "append_SecurityGroups i [] = Inr i"
| "append_SecurityGroups i (sg # sgs) =
     (case sg of
        None \<Rightarrow> Inl NilDereference
      | Some g \<Rightarrow>
          append_SecurityGroups
            (i\<lparr>SecurityGroups := append_slice (SecurityGroups i) (GroupName g)\<rparr>) sgs)"

definition set_SecurityGroups :: "Instance \<Rightarrow> ec2_Instance \<Rightarrow> panic + Instance" where
  "set_SecurityGroups i src =
     (case ec2_SecurityGroups src of
        None \<Rightarrow> Inr i
      | Some sgs \<Rightarrow> append_SecurityGroups i sgs)"

text \<open>The loop over \<open>src.Tags\<close>; \<open>t.Key\<close> dereferences \<open>t\<close>.\<close>

fun assign_Tags :: "tagmap \<Rightarrow> ec2_Tag option list \<Rightarrow> panic + tagmap" where
  "assign_Tags m [] = Inr m"
| "assign_Tags m (t # ts) =
     (case t of
        None \<Rightarrow> Inl NilDereference
      | Some tg \<Rightarrow> assign_Tags (map_assign m (Key tg) (Value tg)) ts)"

text \<open>\<open>if src.Tags != nil\<close>: a fresh map, filled by the loop.\<close>

definition set_Tags :: "Instance \<Rightarrow> ec2_Instance \<Rightarrow> panic + Instance" where
  "set_Tags i src =
     (case ec2_Tags src of
        None \<Rightarrow> Inr i
      | Some ts \<Rightarrow>
          (case assign_Tags [] ts of
             Inl p \<Rightarrow> Inl p
           | Inr m \<Rightarrow> Inr (i\<lparr>Tags := Some m\<rparr>)))"

text \<open>
  \<open>Instance.set\<close>: the blocks and the plain field copies between them. Its \<open>error\<close>
  result is always nil and is left out; the result is the receiver after the call, or
  the panic.
\<close>

definition Instance_set :: "Instance \<Rightarrow> ec2_Instance \<Rightarrow> panic + Instance" where
  "Instance_set i0 src =
     (case set_IamInstanceProfile (i0\<lparr>EbsOptimized := ec2_EbsOptimized src\<rparr>) src of
        Inl p \<Rightarrow> Inl p
      | Inr i1 \<Rightarrow>
     (case set_Monitoring
             (i1\<lparr>ImageID := ec2_ImageId src, InstanceID := ec2_InstanceId src,
                 InstanceType := ec2_InstanceType src, KeyName := ec2_KeyName src\<rparr>) src of
        Inl p \<Rightarrow> Inl p
      | Inr i2 \<Rightarrow>
     (case set_SecurityGroups i2 src of
        Inl p \<Rightarrow> Inl p
      | Inr i3 \<Rightarrow>
          set_Tags
            (i3\<lparr>SourceDestCheck := ec2_SourceDestCheck src, SubnetID := ec2_SubnetId src,
                VpcID := ec2_VpcId src\<rparr>) src)))"

text \<open>
  \<open>Instances.set\<close>: nothing for a nil slice; otherwise each element is skipped when its
  state code is 48 (terminated) and mapped into a fresh \<open>Instance\<close> and appended otherwise.
  \<open>v.State.Code\<close> dereferences \<open>v\<close> and \<open>v.State\<close>.
\<close>

fun Instances_set_loop :: "Instances \<Rightarrow> ec2_Instance option list \<Rightarrow> panic + Instances" where
  "Instances_set_loop i [] = Inr i"
| "Instances_set_loop i (v # vs) =
     (case v of
        None \<Rightarrow> Inl NilDereference
      | Some inst \<Rightarrow>
          (case ec2_State inst of
             None \<Rightarrow> Inl NilDereference
           | Some st \<Rightarrow>
               if Int64Value (Code st) = 48 then Instances_set_loop i vs
               else (case Instance_set Instance_zero inst of
                       Inl p \<Rightarrow> Inl p
                     | Inr tmp \<Rightarrow> Instances_set_loop (i @ [tmp]) vs)))"

definition Instances_set :: "Instances \<Rightarrow> ec2_Instance option list option \<Rightarrow> panic + Instances" where
  "Instances_set i src =
     (case src of None \<Rightarrow> Inr i | Some vs \<Rightarrow> Instances_set_loop i vs)"

section \<open>The EC2 client\<close>

text \<open>
  The calls of \<open>c.ec2conn\<close> that the code makes. A call reads and changes the world
  outside the program (the remote account, the network), so each takes a state of type
  \<open>'w\<close> and returns the next one next to Go's result pair \<open>(output, err)\<close>.
\<close>

record ec2_VpcIpv6CidrBlockAssociation =
  AssociationId :: "string option"

record ec2_Vpc =
  vpc_CidrBlock :: "string option"
  vpc_InstanceTenancy :: "string option"
  vpc_VpcId :: "string option"
  vpc_Tags :: "ec2_Tag option list option"
  Ipv6CidrBlockAssociationSet :: "ec2_VpcIpv6CidrBlockAssociation option list"

record ec2_VpcClassicLink =
  cl_VpcId :: "string option"
  ClassicLinkEnabled :: "bool option"

record ec2_ClassicLinkDnsSupport =
  dns_VpcId :: "string option"
  ClassicLinkDnsSupported :: "bool option"

record ec2_AttributeBooleanValue =
  attr_Value :: "bool option"

record DescribeVpcsOutput =
  Vpcs :: "ec2_Vpc option list"

record DescribeVpcClassicLinkOutput =
  cl_Vpcs :: "ec2_VpcClassicLink option list"

record DescribeVpcClassicLinkDnsSupportOutput =
  dns_Vpcs :: "ec2_ClassicLinkDnsSupport option list"

record DescribeVpcAttributeInput =
  Attribute :: "string option"
  in_VpcId :: "string option"

record DescribeVpcAttributeOutput =
  out_EnableDnsHostnames :: "ec2_AttributeBooleanValue option"
  out_EnableDnsSupport :: "ec2_AttributeBooleanValue option"

record 'w EC2 =
  DescribeInstances ::
    "'w \<Rightarrow> DescribeInstancesInput \<Rightarrow> (DescribeInstancesOutput option \<times> error option) \<times> 'w"
  DescribeVpcs :: "'w \<Rightarrow> (DescribeVpcsOutput option \<times> error option) \<times> 'w"
  DescribeVpcClassicLink :: "'w \<Rightarrow> (DescribeVpcClassicLinkOutput option \<times> error option) \<times> 'w"
  DescribeVpcClassicLinkDnsSupport ::
    "'w \<Rightarrow> (DescribeVpcClassicLinkDnsSupportOutput option \<times> error option) \<times> 'w"
  DescribeVpcAttribute ::
    "'w \<Rightarrow> DescribeVpcAttributeInput \<Rightarrow> (DescribeVpcAttributeOutput option \<times> error option) \<times> 'w"

section \<open>\<open>GetInstances\<close>\<close>

text \<open>The loop over \<open>out.Reservations\<close>; \<open>rsv.Instances\<close> dereferences \<open>rsv\<close>.\<close>

fun set_Reservations :: "Instances \<Rightarrow> ec2_Reservation option list \<Rightarrow> panic + Instances" where
  "set_Reservations instances [] = Inr instances"
| "set_Reservations instances (rsv # rsvs) =
     (case rsv of
        None \<Rightarrow> Inl NilDereference
      | Some r \<Rightarrow>
          (case Instances_set instances (rsv_Instances r) of
             Inl p \<Rightarrow> Inl p
           | Inr instances' \<Rightarrow> set_Reservations instances' rsvs))"

text \<open>
  The \<open>for\<close> loop of \<open>GetInstances\<close>. It ends only when a call fails or a page comes
  without a token, so it is a partial function: \<open>None\<close> is a loop that never ends.
  The result is the pair \<open>(*Instances, error)\<close> that Go returns, or the panic; next to it
  the lines printed by \<open>fmt.Println\<close> and the state of the world after the last call.
\<close>

type_synonym 'w GetInstances_result =
  "(panic + (Instances option \<times> error option)) \<times> string list \<times> 'w"

partial_function (option) GetInstances_loop ::
  "'w EC2 \<Rightarrow> Instances \<Rightarrow> DescribeInstancesInput \<Rightarrow> string list \<Rightarrow> 'w
     \<Rightarrow> 'w GetInstances_result option" where
  "GetInstances_loop ec2conn instances opt stdout w =
     (case DescribeInstances ec2conn w opt of
        ((out, err), w') \<Rightarrow>
          (case err of
             Some e \<Rightarrow> Some (Inr (None, Some e), stdout, w')
           | None \<Rightarrow>
               (case out of
                  None \<Rightarrow> Some (Inl NilDereference, stdout, w')
                | Some page \<Rightarrow>
                    (case set_Reservations instances (Reservations page) of
                       Inl p \<Rightarrow> Some (Inl p, stdout, w')
                     | Inr instances' \<Rightarrow>
                         (case out_NextToken page of
                            Some tok \<Rightarrow>
                              GetInstances_loop ec2conn instances'
                                (opt\<lparr>in_NextToken := Some tok\<rparr>)
                                (stdout @ [StringValue (Some tok)]) w'
                          | None \<Rightarrow> Some (Inr (Some instances', None), stdout, w'))))))"

definition GetInstances :: "'w EC2 \<Rightarrow> 'w \<Rightarrow> 'w GetInstances_result option" where
  "GetInstances ec2conn w =
     GetInstances_loop ec2conn [] \<lparr>in_NextToken = None\<rparr> [] w"

section \<open>\<open>GetVPCs\<close>\<close>











section \<open>The template of \<open>Instances.WriteHCL\<close>\<close>

text \<open>
  \<open>WriteHCL\<close> executes a fixed \<open>text/template\<close> on the collection and hands the text to
  \<open>HCLFmt\<close>. The functions below are that template, action by action, under the rules of
  \<open>text/template\<close>: \<open>{{- \<close> removes the white space that ends the text before it; \<open>if\<close>
  holds for a pointer that is not nil and for a slice or map that is not empty; a
  pointer is printed as the value it points to and a nil pointer as \<open><nil>\<close>; \<open>range\<close>
  visits the entries of a map in the order of their keys, pointers by address.
  The indentation is the source's: tabs down to \<open>source_dest_check\<close>, spaces after it.
\<close>

definition NL :: string where
  "NL = [CHR 0x0A]"

definition TAB :: string where
  "TAB = [CHR 0x09]"

definition print_string :: "string option \<Rightarrow> string" where
  "print_string p = (case p of None \<Rightarrow> ''<nil>'' | Some s \<Rightarrow> s)"

definition print_bool :: "bool option \<Rightarrow> string" where
  "print_bool p = (case p of None \<Rightarrow> ''<nil>'' | Some b \<Rightarrow> if b then ''true'' else ''false'')"

definition print_key :: "strref option \<Rightarrow> string" where
  "print_key p = (case p of None \<Rightarrow> ''<nil>'' | Some r \<Rightarrow> pointee r)"

definition slice_len :: "'a list option \<Rightarrow> nat" where
  "slice_len s = (case s of None \<Rightarrow> 0 | Some xs \<Rightarrow> length xs)"

definition uintptr :: "strref option \<Rightarrow> nat" where
  "uintptr p = (case p of None \<Rightarrow> 0 | Some r \<Rightarrow> address r)"

definition range_map :: "tagmap option \<Rightarrow> tagmap" where
  "range_map m = (case m of None \<Rightarrow> [] | Some es \<Rightarrow> sort_key (\<lambda>e. uintptr (fst e)) es)"

definition tmpl_resource :: "Instance \<Rightarrow> string" where
  "tmpl_resource i =
     NL @ TAB @ ''resource '' @ dquote @ ''aws_instance'' @ dquote @ '' '' @ dquote
       @ print_string (InstanceID i) @ ''_instance'' @ dquote @ '' {''"

definition tmpl_ami :: "Instance \<Rightarrow> string" where
  "tmpl_ami i = NL @ TAB @ TAB @ ''ami = '' @ dquote @ print_string (ImageID i) @ dquote"

definition tmpl_instance_type :: "Instance \<Rightarrow> string" where
  "tmpl_instance_type i =
     NL @ TAB @ TAB @ ''instance_type = '' @ dquote @ print_string (InstanceType i) @ dquote"

definition tmpl_ebs_optimized :: "Instance \<Rightarrow> string" where
  "tmpl_ebs_optimized i =
     (if EbsOptimized i \<noteq> None
      then NL @ TAB @ TAB @ ''ebs_optimized = '' @ print_bool (EbsOptimized i)
      else [])"

definition tmpl_iam_instance_profile :: "Instance \<Rightarrow> string" where
  "tmpl_iam_instance_profile i =
     (if IamInstanceProfile i \<noteq> None
      then NL @ TAB @ TAB @ ''iam_instance_profile = '' @ dquote
             @ print_string (IamInstanceProfile i) @ dquote
      else [])"

definition tmpl_key_name :: "Instance \<Rightarrow> string" where
  "tmpl_key_name i =
     (if KeyName i \<noteq> None
      then NL @ TAB @ TAB @ ''key_name = '' @ dquote @ print_string (KeyName i) @ dquote
      else [])"

definition tmpl_monitoring :: "Instance \<Rightarrow> string" where
  "tmpl_monitoring i =
     (if Monitoring i \<noteq> None
      then NL @ TAB @ TAB @ ''monitoring = '' @ print_bool (Monitoring i)
      else [])"

definition tmpl_source_dest_check :: "Instance \<Rightarrow> string" where
  "tmpl_source_dest_check i =
     (if SourceDestCheck i \<noteq> None
      then NL @ TAB @ TAB @ ''source_dest_check = '' @ print_bool (SourceDestCheck i)
      else [])"

definition tmpl_subnet_id :: "Instance \<Rightarrow> string" where
  "tmpl_subnet_id i =
     (if SubnetID i \<noteq> None
      then NL @ ''    subnet_id = '' @ dquote @ print_string (SubnetID i) @ dquote
      else [])"

definition tmpl_vpc_security_group_ids :: "Instance \<Rightarrow> string" where
  "tmpl_vpc_security_group_ids i =
     (if slice_len (SecurityGroups i) > 0
      then (let secgroup = StringValueSlice (case SecurityGroups i of None \<Rightarrow> [] | Some xs \<Rightarrow> xs)
            in NL @ ''    vpc_security_group_ids = ['' @ snd (joinStringSlice '','' secgroup) @ '']'')
      else [])"

definition tmpl_tag :: "strref option \<times> string option \<Rightarrow> string" where
  "tmpl_tag e =
     NL @ ''        '' @ dquote @ print_key (fst e) @ dquote @ '' = '' @ dquote
       @ print_string (snd e) @ dquote"

definition tmpl_tags :: "Instance \<Rightarrow> string" where
  "tmpl_tags i =
     (if slice_len (Tags i) > 0
      then NL @ ''    tags {'' @ NL @ ''      '' @ concat (map tmpl_tag (range_map (Tags i)))
             @ NL @ ''    }'' @ NL @ ''    ''
      else [])"

text \<open>The body of \<open>{{ range . }}\<close> for one \<open>Instance\<close>.\<close>

definition tmpl_instance :: "Instance \<Rightarrow> string" where
  "tmpl_instance i =
     tmpl_resource i @ tmpl_ami i @ tmpl_instance_type i @ tmpl_ebs_optimized i
       @ tmpl_iam_instance_profile i @ tmpl_key_name i @ tmpl_monitoring i
       @ tmpl_source_dest_check i @ tmpl_subnet_id i @ tmpl_vpc_security_group_ids i
       @ NL @ ''    '' @ tmpl_tags i @ NL @ TAB @ ''}''"

text \<open>
  The whole template on a collection. The receiver of \<open>WriteHCL\<close> is a pointer that is
  not nil, so \<open>{{ if . }}\<close> holds.
\<close>

definition tmpl_Instances :: "Instances \<Rightarrow> string" where
  "tmpl_Instances insts =
     NL @ TAB @ NL @ TAB @ TAB @ concat (map tmpl_instance insts) @ NL @ TAB"

text \<open>
  \<open>HCLFmt\<close> parses and prints with the HCL library, which is outside the repository: it
  is a parameter that returns the formatted text or an error.
\<close>

definition WriteHCL :: "(string \<Rightarrow> error + string) \<Rightarrow> Instances \<Rightarrow> error + string" where
  "WriteHCL HCLFmt insts = HCLFmt (tmpl_Instances insts)"

section \<open>Notions used to state the properties\<close>

text \<open>What \<open>Instance.set\<close> leaves in \<open>IamInstanceProfile\<close> and in \<open>Tags\<close>, given the receiver before.\<close>

definition mapped_profile :: "Instance \<Rightarrow> ec2_Instance \<Rightarrow> string option" where
  "mapped_profile i src =
     (case ec2_IamInstanceProfile src of
        None \<Rightarrow> IamInstanceProfile i
      | Some prof \<Rightarrow>
          (case Arn prof of
             None \<Rightarrow> IamInstanceProfile i
           | Some arn \<Rightarrow> Some (last (Split arn (CHR ''/'')))))"

definition mapped_Tags :: "Instance \<Rightarrow> ec2_Instance \<Rightarrow> tagmap option" where
  "mapped_Tags i src =
     (case ec2_Tags src of
        None \<Rightarrow> Tags i
      | Some ts \<Rightarrow> (case assign_Tags [] ts of Inl p \<Rightarrow> None | Inr m \<Rightarrow> Some m))"

text \<open>The addresses of the key pointers of a tag map, nil as \<open>None\<close>.\<close>

definition key_addrs :: "tagmap \<Rightarrow> nat option list" where
  "key_addrs m = map (\<lambda>e. map_option address (fst e)) m"

text \<open>
  A response instance for the examples: running (state code 16), monitoring disabled,
  the profile ARN of the specification, and two tags whose keys are the text \<open>Name\<close> in
  two allocations. \<open>example_mapped\<close> is what \<open>Instance.set\<close> makes of it.
\<close>

definition example_instance :: ec2_Instance where
  "example_instance =
     \<lparr>ec2_EbsOptimized = Some False,
      ec2_IamInstanceProfile =
        Some \<lparr>Arn = Some ''arn:aws:iam::123456789012:instance-profile/myprofile''\<rparr>,
      ec2_ImageId = Some ''ami-1'', ec2_InstanceId = Some ''i-1'',
      ec2_InstanceType = Some ''t2.micro'', ec2_KeyName = None,
      ec2_Monitoring = Some \<lparr>Monitoring_State = Some ''disabled''\<rparr>,
      ec2_SecurityGroups = Some [Some \<lparr>GroupName = Some ''default''\<rparr>],
      ec2_SourceDestCheck = Some True,
      ec2_State = Some \<lparr>Code = Some 16\<rparr>,
      ec2_SubnetId = None, ec2_VpcId = Some ''vpc-1'',
      ec2_Tags = Some [Some \<lparr>Key = Some (StrRef 1 ''Name''), Value = Some ''a''\<rparr>,
                       Some \<lparr>Key = Some (StrRef 2 ''Name''), Value = Some ''b''\<rparr>]\<rparr>"

definition example_mapped :: Instance where
  "example_mapped =
     \<lparr>EbsOptimized = Some False, IamInstanceProfile = Some ''myprofile'',
      ImageID = Some ''ami-1'', InstanceID = Some ''i-1'', InstanceType = Some ''t2.micro'',
      KeyName = None, Monitoring = Some False, SecurityGroups = Some [Some ''default''],
      SourceDestCheck = Some True, SubnetID = None, VpcID = Some ''vpc-1'',
      Tags = Some [(Some (StrRef 1 ''Name''), Some ''a''), (Some (StrRef 2 ''Name''), Some ''b'')]\<rparr>"

text \<open>
  An instance is terminated when its state code is 48. \<open>retained\<close> are the instances of
  a slice that are not terminated, in order; \<open>maps_to\<close> relates a source instance to the
  struct that \<open>Instance.set\<close> makes of it from the zero value.
\<close>

definition terminated :: "ec2_Instance \<Rightarrow> bool" where
  "terminated v = (case ec2_State v of None \<Rightarrow> False | Some st \<Rightarrow> Int64Value (Code st) = 48)"

definition retained :: "ec2_Instance option list option \<Rightarrow> ec2_Instance list" where
  "retained src = (case src of None \<Rightarrow> [] | Some vs \<Rightarrow> [v. Some v \<leftarrow> vs, \<not> terminated v])"

definition maps_to :: "ec2_Instance \<Rightarrow> Instance \<Rightarrow> bool" where
  "maps_to v m = (Instance_set Instance_zero v = Inr m)"

text \<open>
  The pointers that the mapping dereferences: \<open>set_completes\<close> for \<open>Instance.set\<close>,
  \<open>source_ok\<close> for one element of the slice given to \<open>Instances.set\<close>, \<open>page_ok\<close> for a page
  of \<open>DescribeInstances\<close>.
\<close>

definition no_nil :: "'a option list option \<Rightarrow> bool" where
  "no_nil s = (case s of None \<Rightarrow> True | Some xs \<Rightarrow> list_all (\<lambda>x. x \<noteq> None) xs)"

definition set_completes :: "ec2_Instance \<Rightarrow> bool" where
  "set_completes v =
     (ec2_Monitoring v \<noteq> None \<and> no_nil (ec2_SecurityGroups v) \<and> no_nil (ec2_Tags v))"

definition source_ok :: "ec2_Instance option \<Rightarrow> bool" where
  "source_ok v =
     (case v of
        None \<Rightarrow> False
      | Some x \<Rightarrow> ec2_State x \<noteq> None \<and> (terminated x \<or> set_completes x))"

definition sources_ok :: "ec2_Instance option list option \<Rightarrow> bool" where
  "sources_ok src = (case src of None \<Rightarrow> True | Some vs \<Rightarrow> list_all source_ok vs)"

definition reservation_ok :: "ec2_Reservation option \<Rightarrow> bool" where
  "reservation_ok rsv = (case rsv of None \<Rightarrow> False | Some r \<Rightarrow> sources_ok (rsv_Instances r))"

definition page_ok :: "DescribeInstancesOutput \<Rightarrow> bool" where
  "page_ok page = list_all reservation_ok (Reservations page)"

text \<open>The retained instances of all reservations of a page, in order.\<close>

definition reservations_retained :: "ec2_Reservation option list \<Rightarrow> ec2_Instance list" where
  "reservations_retained rsvs =
     concat (map (\<lambda>rsv. case rsv of None \<Rightarrow> [] | Some r \<Rightarrow> retained (rsv_Instances r)) rsvs)"

definition page_retained :: "DescribeInstancesOutput \<Rightarrow> ec2_Instance list" where
  "page_retained page = reservations_retained (Reservations page)"

text \<open>
  \<open>serves c w opt pages w_end\<close>: asked with \<open>opt\<close> in state \<open>w\<close>, the API answers with the
  first page and no error; each page but the last carries a token, and asked with that
  token the API answers with the next page; the last page carries none, and \<open>w_end\<close> is
  the state after it.
\<close>

fun serves ::
  "'w EC2 \<Rightarrow> 'w \<Rightarrow> DescribeInstancesInput \<Rightarrow> DescribeInstancesOutput list \<Rightarrow> 'w \<Rightarrow> bool" where
  "serves c w opt [] w_end = False"
| "serves c w opt (page # pages) w_end =
     (case DescribeInstances c w opt of
        ((out, err), w') \<Rightarrow>
          err = None \<and> out = Some page \<and>
          (case out_NextToken page of
             None \<Rightarrow> pages = [] \<and> w_end = w'
           | Some tok \<Rightarrow> serves c w' (opt\<lparr>in_NextToken := Some tok\<rparr>) pages w_end))"

definition printed_tokens :: "DescribeInstancesOutput list \<Rightarrow> string list" where
  "printed_tokens pages =
     concat (map (\<lambda>page. case out_NextToken page of None \<Rightarrow> [] | Some tok \<Rightarrow> [tok]) pages)"

text \<open>
  More examples: a terminated instance with no monitoring information, a slice holding
  it and the running instance, and a client whose \<open>DescribeInstances\<close> answers with a first
  page carrying the token \<open>t1\<close> and answers the token \<open>t1\<close> with the response given as
  parameter. Its state counts the calls; its other calls fail.
\<close>

definition example_terminated :: ec2_Instance where
  "example_terminated =
     example_instance\<lparr>ec2_InstanceId := Some ''i-0'', ec2_Monitoring := None,
                      ec2_State := Some \<lparr>Code = Some 48\<rparr>\<rparr>"

definition example_source :: "ec2_Instance option list option" where
  "example_source = Some [Some example_terminated, Some example_instance]"

definition example_page1 :: DescribeInstancesOutput where
  "example_page1 =
     \<lparr>out_NextToken = Some ''t1'', Reservations = [Some \<lparr>rsv_Instances = example_source\<rparr>]\<rparr>"

definition example_page2 :: DescribeInstancesOutput where
  "example_page2 =
     \<lparr>out_NextToken = None,
      Reservations = [Some \<lparr>rsv_Instances = Some [Some example_instance]\<rparr>,
                      Some \<lparr>rsv_Instances = None\<rparr>]\<rparr>"

definition example_EC2 :: "DescribeInstancesOutput option \<times> error option \<Rightarrow> nat EC2" where
  "example_EC2 second =
     \<lparr>DescribeInstances =
        (\<lambda>w opt. case in_NextToken opt of
                   None \<Rightarrow> ((Some example_page1, None), Suc w)
                 | Some tok \<Rightarrow>
                     if tok = ''t1'' then (second, Suc w)
                     else ((None, Some (OtherErr ''unknown token'')), Suc w)),
      DescribeVpcs = (\<lambda>w. ((None, Some (OtherErr ''not served'')), Suc w)),
      DescribeVpcClassicLink = (\<lambda>w. ((None, Some (OtherErr ''not served'')), Suc w)),
      DescribeVpcClassicLinkDnsSupport = (\<lambda>w. ((None, Some (OtherErr ''not served'')), Suc w)),
      DescribeVpcAttribute = (\<lambda>w opt. ((None, Some (OtherErr ''not served'')), Suc w))\<rparr>"






text \<open>
  The quoted form of a string and the joining of strings, written out independently of
  \<open>quote\<close> and \<open>Join\<close>: a string that is not empty and both begins and ends with the
  double quote (byte \<open>0x22\<close>) is its own quoted form, any other string is put between
  two double quotes; joining puts the separator in front of every element but the first.
\<close>

definition quoted :: "string \<Rightarrow> string" where
  "quoted s =
     (if s \<noteq> [] \<and> hd s = CHR 0x22 \<and> last s = CHR 0x22 then s
      else CHR 0x22 # s @ [CHR 0x22])"

definition joined :: "string list \<Rightarrow> string \<Rightarrow> string" where
  "joined xs sep =
     (case xs of [] \<Rightarrow> [] | x # rest \<Rightarrow> x @ concat (map (\<lambda>y. sep @ y) rest))"


text \<open>
  A response instance with every optional field unset: only the state and a monitoring
  struct with a nil state string are there.
\<close>

definition example_unset :: ec2_Instance where
  "example_unset =
     \<lparr>ec2_EbsOptimized = None, ec2_IamInstanceProfile = None, ec2_ImageId = None,
      ec2_InstanceId = None, ec2_InstanceType = None, ec2_KeyName = None,
      ec2_Monitoring = Some \<lparr>Monitoring_State = None\<rparr>, ec2_SecurityGroups = None,
      ec2_SourceDestCheck = None, ec2_State = Some \<lparr>Code = Some 16\<rparr>,
      ec2_SubnetId = None, ec2_VpcId = None, ec2_Tags = None\<rparr>"

section \<open>Facts about the string helpers\<close>

lemma Compare_eq: "Compare a b = 0 \<longleftrightarrow> a = b"
  by (induction a b rule: Compare.induct) auto

lemma Split_not_Nil: "Split s c \<noteq> []"
  by (induction s) (auto split: list.splits)

lemma Split_no_sep: "c \<notin> set b \<Longrightarrow> Split b c = [b]"
  by (induction b) auto

lemma Split_append: "Split (a @ c # b) c = Split a c @ Split b c"
proof (induction a)
  case Nil
  show ?case by simp
next
  case (Cons x a)
  obtain p ps where "Split a c = p # ps"
    using Split_not_Nil [of a c] by (cases "Split a c") auto
  with Cons show ?case by simp
qed

lemma last_Split: "c \<notin> set b \<Longrightarrow> last (Split (a @ c # b) c) = b"
  by (simp add: Split_append Split_no_sep)

lemma profile_name_last: "profile_name arn = Inr (last (Split arn (CHR ''/'')))"
  by (simp add: profile_name_def Let_def Split_not_Nil last_conv_nth)

lemma joinStringSlice_loop_eq:
  "joinStringSlice_loop k src = take k src @ map quote (drop k src)"
proof (induction k src rule: joinStringSlice_loop.induct)
  case (1 k src)
  show ?case
  proof (cases "k < length src")
    case True
    have "joinStringSlice_loop k src = joinStringSlice_loop (Suc k) (src[k := quote (src ! k)])"
      using True by (subst joinStringSlice_loop.simps) simp
    also have "\<dots> = take (Suc k) (src[k := quote (src ! k)])
                   @ map quote (drop (Suc k) (src[k := quote (src ! k)]))"
      using True "1.IH" by simp
    also have "\<dots> = take k src @ map quote (drop k src)"
      using True by (simp add: take_Suc_conv_app_nth Cons_nth_drop_Suc [symmetric])
    finally show ?thesis .
  next
    case False
    then show ?thesis by (subst joinStringSlice_loop.simps) simp
  qed
qed

lemma quote_quoted: "quote s = quoted s"
proof (cases s rule: rev_cases)
  case Nil
  then show ?thesis by (simp add: quote_def quoted_def HasPrefix_def HasSuffix_def dquote_def)
next
  case (snoc ys y)
  then show ?thesis
    by (cases ys) (auto simp: quote_def quoted_def HasPrefix_def HasSuffix_def dquote_def)
qed

lemma Join_joined: "Join xs sep = joined xs sep"
  by (induction xs sep rule: Join.induct) (simp_all add: joined_def)

section \<open>Facts about \<open>Instance.set\<close>\<close>

lemma set_IamInstanceProfile_eq:
  "set_IamInstanceProfile i src = Inr (i\<lparr>IamInstanceProfile := mapped_profile i src\<rparr>)"
  by (simp add: set_IamInstanceProfile_def mapped_profile_def profile_name_last StringValue_def
      split: option.splits)

lemma set_Monitoring_Inr:
  assumes "set_Monitoring i src = Inr r"
  obtains mon where "ec2_Monitoring src = Some mon"
    and "r = i\<lparr>Monitoring := Some (StringValue (Monitoring_State mon) \<noteq> ''disabled'')\<rparr>"
  using assms
  by (auto simp: set_Monitoring_def Compare_eq split: option.splits if_splits)

lemma append_SecurityGroups_frame:
  "append_SecurityGroups i sgs = Inr r \<Longrightarrow> \<exists>sg. r = i\<lparr>SecurityGroups := sg\<rparr>"
proof (induction sgs arbitrary: i)
  case Nil
  then have "r = i\<lparr>SecurityGroups := SecurityGroups i\<rparr>" by simp
  then show ?case by blast
next
  case (Cons sg sgs)
  then show ?case by (cases sg) force+
qed

lemma set_SecurityGroups_Inr:
  assumes "set_SecurityGroups i src = Inr r"
  obtains sg where "r = i\<lparr>SecurityGroups := sg\<rparr>"
    and "ec2_SecurityGroups src = None \<longrightarrow> sg = SecurityGroups i"
proof (cases "ec2_SecurityGroups src")
  case None
  then have "r = i\<lparr>SecurityGroups := SecurityGroups i\<rparr>"
    using assms by (simp add: set_SecurityGroups_def)
  then show ?thesis using None that by simp
next
  case (Some sgs)
  then have "append_SecurityGroups i sgs = Inr r"
    using assms by (simp add: set_SecurityGroups_def)
  from append_SecurityGroups_frame [OF this] show ?thesis using Some that by auto
qed

lemma set_Tags_Inr:
  "set_Tags i src = Inr r \<Longrightarrow> r = i\<lparr>Tags := mapped_Tags i src\<rparr>"
  by (auto simp: set_Tags_def mapped_Tags_def split: option.splits sum.splits)

lemma Instance_set_Inr:
  assumes "Instance_set i src = Inr r"
  obtains mon sg where "ec2_Monitoring src = Some mon"
    and "ec2_SecurityGroups src = None \<longrightarrow> sg = SecurityGroups i"
    and "r = i\<lparr>EbsOptimized := ec2_EbsOptimized src,
                 IamInstanceProfile := mapped_profile i src,
                 ImageID := ec2_ImageId src, InstanceID := ec2_InstanceId src,
                 InstanceType := ec2_InstanceType src, KeyName := ec2_KeyName src,
                 Monitoring := Some (StringValue (Monitoring_State mon) \<noteq> ''disabled''),
                 SecurityGroups := sg,
                 SourceDestCheck := ec2_SourceDestCheck src,
                 SubnetID := ec2_SubnetId src, VpcID := ec2_VpcId src,
                 Tags := mapped_Tags i src\<rparr>"
proof -
  let ?i1 = "i\<lparr>EbsOptimized := ec2_EbsOptimized src, IamInstanceProfile := mapped_profile i src\<rparr>"
  let ?a = "?i1\<lparr>ImageID := ec2_ImageId src, InstanceID := ec2_InstanceId src,
                 InstanceType := ec2_InstanceType src, KeyName := ec2_KeyName src\<rparr>"
  have p: "mapped_profile (i\<lparr>EbsOptimized := ec2_EbsOptimized src\<rparr>) src = mapped_profile i src"
    by (simp add: mapped_profile_def split: option.splits)
  obtain i2 i3 where
    2: "set_Monitoring ?a src = Inr i2" and
    3: "set_SecurityGroups i2 src = Inr i3" and
    4: "set_Tags (i3\<lparr>SourceDestCheck := ec2_SourceDestCheck src, SubnetID := ec2_SubnetId src,
                VpcID := ec2_VpcId src\<rparr>) src = Inr r"
    using assms unfolding Instance_set_def set_IamInstanceProfile_eq p
    by (auto split: sum.splits)
  from 2 obtain mon where mon: "ec2_Monitoring src = Some mon"
    and i2: "i2 = ?a\<lparr>Monitoring := Some (StringValue (Monitoring_State mon) \<noteq> ''disabled'')\<rparr>"
    by (rule set_Monitoring_Inr)
  from 3 obtain sg where i3: "i3 = i2\<lparr>SecurityGroups := sg\<rparr>"
    and sg: "ec2_SecurityGroups src = None \<longrightarrow> sg = SecurityGroups i2"
    by (rule set_SecurityGroups_Inr)
  have t: "mapped_Tags (i3\<lparr>SourceDestCheck := ec2_SourceDestCheck src, SubnetID := ec2_SubnetId src,
                VpcID := ec2_VpcId src\<rparr>) src = mapped_Tags i src"
    by (simp add: mapped_Tags_def i3 i2 split: option.splits)
  have r: "r = i\<lparr>EbsOptimized := ec2_EbsOptimized src,
                 IamInstanceProfile := mapped_profile i src,
                 ImageID := ec2_ImageId src, InstanceID := ec2_InstanceId src,
                 InstanceType := ec2_InstanceType src, KeyName := ec2_KeyName src,
                 Monitoring := Some (StringValue (Monitoring_State mon) \<noteq> ''disabled''),
                 SecurityGroups := sg,
                 SourceDestCheck := ec2_SourceDestCheck src,
                 SubnetID := ec2_SubnetId src, VpcID := ec2_VpcId src,
                 Tags := mapped_Tags i src\<rparr>"
    using set_Tags_Inr [OF 4] unfolding t by (simp add: i3 i2)
  have sg': "ec2_SecurityGroups src = None \<longrightarrow> sg = SecurityGroups i"
    using sg by (simp add: i2)
  from mon sg' r show ?thesis by (rule that)
qed

lemma Instance_set_fields:
  assumes "Instance_set i src = Inr r"
  shows "EbsOptimized r = ec2_EbsOptimized src"
    and "IamInstanceProfile r = mapped_profile i src"
    and "ImageID r = ec2_ImageId src"
    and "InstanceID r = ec2_InstanceId src"
    and "InstanceType r = ec2_InstanceType src"
    and "KeyName r = ec2_KeyName src"
    and "ec2_Monitoring src = Some mon \<Longrightarrow>
           Monitoring r = Some (StringValue (Monitoring_State mon) \<noteq> ''disabled'')"
    and "ec2_SecurityGroups src = None \<Longrightarrow> SecurityGroups r = SecurityGroups i"
    and "SourceDestCheck r = ec2_SourceDestCheck src"
    and "SubnetID r = ec2_SubnetId src"
    and "VpcID r = ec2_VpcId src"
    and "Tags r = mapped_Tags i src"
    and "ec2_Monitoring src \<noteq> None"
proof -
  from assms obtain mon' sg where m: "ec2_Monitoring src = Some mon'"
    and s: "ec2_SecurityGroups src = None \<longrightarrow> sg = SecurityGroups i"
    and r: "r = i\<lparr>EbsOptimized := ec2_EbsOptimized src,
                 IamInstanceProfile := mapped_profile i src,
                 ImageID := ec2_ImageId src, InstanceID := ec2_InstanceId src,
                 InstanceType := ec2_InstanceType src, KeyName := ec2_KeyName src,
                 Monitoring := Some (StringValue (Monitoring_State mon') \<noteq> ''disabled''),
                 SecurityGroups := sg,
                 SourceDestCheck := ec2_SourceDestCheck src,
                 SubnetID := ec2_SubnetId src, VpcID := ec2_VpcId src,
                 Tags := mapped_Tags i src\<rparr>"
    by (rule Instance_set_Inr)
  show "EbsOptimized r = ec2_EbsOptimized src" by (simp add: r)
  show "IamInstanceProfile r = mapped_profile i src" by (simp add: r)
  show "ImageID r = ec2_ImageId src" by (simp add: r)
  show "InstanceID r = ec2_InstanceId src" by (simp add: r)
  show "InstanceType r = ec2_InstanceType src" by (simp add: r)
  show "KeyName r = ec2_KeyName src" by (simp add: r)
  show "Monitoring r = Some (StringValue (Monitoring_State mon) \<noteq> ''disabled'')"
    if "ec2_Monitoring src = Some mon" using that m by (simp add: r)
  show "SecurityGroups r = SecurityGroups i" if "ec2_SecurityGroups src = None"
    using that s by (simp add: r)
  show "SourceDestCheck r = ec2_SourceDestCheck src" by (simp add: r)
  show "SubnetID r = ec2_SubnetId src" by (simp add: r)
  show "VpcID r = ec2_VpcId src" by (simp add: r)
  show "Tags r = mapped_Tags i src" by (simp add: r)
  show "ec2_Monitoring src \<noteq> None" by (simp add: m)
qed

lemma Instance_set_nil_Monitoring:
  "ec2_Monitoring src = None \<Longrightarrow> Instance_set i src = Inl NilDereference"
  by (simp add: Instance_set_def set_IamInstanceProfile_eq set_Monitoring_def)

lemma example_instance_mapped: "Instance_set Instance_zero example_instance = Inr example_mapped"
  by (simp add: Instance_set_def set_IamInstanceProfile_eq mapped_profile_def
      set_Monitoring_def set_SecurityGroups_def set_Tags_def append_slice_def ptr_eq_def
      example_instance_def example_mapped_def Instance_zero_def StringValue_def)

lemma key_addrs_map_assign:
  "key_addrs (map_assign m k v) =
     (if map_option address k \<in> set (key_addrs m) then key_addrs m
      else key_addrs m @ [map_option address k])"
proof (induction m)
  case Nil
  show ?case by (simp add: key_addrs_def)
next
  case (Cons e m)
  obtain k' v' where e: "e = (k', v')" by (cases e)
  show ?case
  proof (cases "ptr_eq k' k")
    case True
    then show ?thesis by (simp add: e key_addrs_def ptr_eq_def)
  next
    case False
    then have "key_addrs (map_assign (e # m) k v)
                 = map_option address k' # key_addrs (map_assign m k v)"
      by (simp add: e key_addrs_def)
    also have "\<dots> = map_option address k' #
        (if map_option address k \<in> set (key_addrs m) then key_addrs m
         else key_addrs m @ [map_option address k])"
      by (simp only: Cons.IH)
    finally show ?thesis using False by (auto simp: e key_addrs_def ptr_eq_def)
  qed
qed

lemma map_assign_key_addrs:
  "set (key_addrs (map_assign m k v)) = insert (map_option address k) (set (key_addrs m))"
  by (auto simp: key_addrs_map_assign)

lemma map_assign_distinct:
  "distinct (key_addrs m) \<Longrightarrow> distinct (key_addrs (map_assign m k v))"
  by (simp add: key_addrs_map_assign)

lemma assign_Tags_keys:
  "assign_Tags m ts = Inr m' \<Longrightarrow>
     set (key_addrs m') = set (key_addrs m) \<union> {map_option address (Key t) |t. Some t \<in> set ts}"
proof (induction ts arbitrary: m)
  case Nil
  then show ?case by simp
next
  case (Cons t ts)
  then obtain tg where t: "t = Some tg" by (cases t) auto
  with Cons.prems have "assign_Tags (map_assign m (Key tg) (Value tg)) ts = Inr m'" by simp
  from Cons.IH [OF this] show ?case
    by (auto simp: map_assign_key_addrs t)
qed

lemma assign_Tags_distinct:
  "assign_Tags m ts = Inr m' \<Longrightarrow> distinct (key_addrs m) \<Longrightarrow> distinct (key_addrs m')"
proof (induction ts arbitrary: m)
  case Nil
  then show ?case by simp
next
  case (Cons t ts)
  then obtain tg where t: "t = Some tg" by (cases t) auto
  with Cons.prems have "assign_Tags (map_assign m (Key tg) (Value tg)) ts = Inr m'" by simp
  moreover have "distinct (key_addrs (map_assign m (Key tg) (Value tg)))"
    using Cons.prems(2) by (rule map_assign_distinct)
  ultimately show ?case by (rule Cons.IH)
qed

section \<open>Facts about \<open>Instances.set\<close> and \<open>GetInstances\<close>\<close>

lemma append_SecurityGroups_total:
  "list_all (\<lambda>x. x \<noteq> None) sgs \<Longrightarrow> \<exists>r. append_SecurityGroups i sgs = Inr r"
  by (induction sgs arbitrary: i) auto

lemma assign_Tags_total:
  "list_all (\<lambda>x. x \<noteq> None) ts \<Longrightarrow> \<exists>m'. assign_Tags m ts = Inr m'"
  by (induction ts arbitrary: m) auto

lemma set_Monitoring_total:
  "ec2_Monitoring src \<noteq> None \<Longrightarrow> \<exists>r. set_Monitoring i src = Inr r"
  by (auto simp: set_Monitoring_def)

lemma set_SecurityGroups_total:
  "no_nil (ec2_SecurityGroups src) \<Longrightarrow> \<exists>r. set_SecurityGroups i src = Inr r"
  by (auto simp: set_SecurityGroups_def no_nil_def append_SecurityGroups_total
      split: option.splits)

lemma set_Tags_total:
  assumes "no_nil (ec2_Tags src)"
  shows "\<exists>r. set_Tags i src = Inr r"
proof (cases "ec2_Tags src")
  case None
  then show ?thesis by (simp add: set_Tags_def)
next
  case (Some ts)
  with assms have "list_all (\<lambda>x. x \<noteq> None) ts" by (simp add: no_nil_def)
  then obtain m where "assign_Tags [] ts = Inr m"
    using assign_Tags_total by blast
  with Some show ?thesis by (simp add: set_Tags_def)
qed

lemma Instance_set_total:
  assumes "set_completes src"
  shows "\<exists>r. Instance_set i src = Inr r"
proof -
  from assms have m: "ec2_Monitoring src \<noteq> None" and g: "no_nil (ec2_SecurityGroups src)"
    and t: "no_nil (ec2_Tags src)"
    by (simp_all add: set_completes_def)
  let ?a = "i\<lparr>EbsOptimized := ec2_EbsOptimized src\<rparr>"
  let ?b = "?a\<lparr>IamInstanceProfile := mapped_profile ?a src\<rparr>
             \<lparr>ImageID := ec2_ImageId src, InstanceID := ec2_InstanceId src,
              InstanceType := ec2_InstanceType src, KeyName := ec2_KeyName src\<rparr>"
  obtain i2 where 2: "set_Monitoring ?b src = Inr i2"
    using set_Monitoring_total [OF m] by blast
  obtain i3 where 3: "set_SecurityGroups i2 src = Inr i3"
    using set_SecurityGroups_total [OF g] by blast
  obtain r where 4: "set_Tags (i3\<lparr>SourceDestCheck := ec2_SourceDestCheck src,
      SubnetID := ec2_SubnetId src, VpcID := ec2_VpcId src\<rparr>) src = Inr r"
    using set_Tags_total [OF t] by blast
  have "Instance_set i src = Inr r"
    unfolding Instance_set_def set_IamInstanceProfile_eq by (simp add: 2 3 4)
  then show ?thesis ..
qed

lemma Instances_set_loop_Inr:
  "Instances_set_loop i vs = Inr r \<Longrightarrow>
     \<exists>ms. r = i @ ms \<and> list_all2 maps_to [v. Some v \<leftarrow> vs, \<not> terminated v] ms"
proof (induction vs arbitrary: i)
  case Nil
  then show ?case by simp
next
  case (Cons v vs)
  from Cons.prems obtain inst st where v: "v = Some inst" and st: "ec2_State inst = Some st"
    by (auto split: option.splits)
  show ?case
  proof (cases "Int64Value (Code st) = 48")
    case True
    then have "terminated inst" by (simp add: terminated_def st)
    moreover from True Cons.prems have "Instances_set_loop i vs = Inr r"
      by (simp add: v st)
    ultimately show ?thesis using Cons.IH by (simp add: v)
  next
    case False
    then have nt: "\<not> terminated inst" by (simp add: terminated_def st)
    from False Cons.prems obtain tmp where tmp: "Instance_set Instance_zero inst = Inr tmp"
      and rest: "Instances_set_loop (i @ [tmp]) vs = Inr r"
      by (auto simp: v st split: sum.splits)
    from Cons.IH [OF rest] obtain ms where ms: "r = (i @ [tmp]) @ ms"
      and all: "list_all2 maps_to [v. Some v \<leftarrow> vs, \<not> terminated v] ms"
      by blast
    have "r = i @ (tmp # ms)" using ms by simp
    moreover have "list_all2 maps_to [v. Some v \<leftarrow> (v # vs), \<not> terminated v] (tmp # ms)"
      using all nt tmp by (simp add: v maps_to_def)
    ultimately show ?thesis by blast
  qed
qed

lemma Instances_set_loop_total:
  "list_all source_ok vs \<Longrightarrow> \<exists>r. Instances_set_loop i vs = Inr r"
proof (induction vs arbitrary: i)
  case Nil
  show ?case by simp
next
  case (Cons v vs)
  from Cons.prems have sv: "source_ok v" and rest: "list_all source_ok vs"
    by simp_all
  from sv obtain inst st where v: "v = Some inst" and st: "ec2_State inst = Some st"
    and ok: "terminated inst \<or> set_completes inst"
    by (auto simp: source_ok_def split: option.splits)
  show ?case
  proof (cases "Int64Value (Code st) = 48")
    case True
    then show ?thesis using Cons.IH [OF rest] by (simp add: v st)
  next
    case False
    then have "set_completes inst" using ok by (simp add: terminated_def st)
    then obtain tmp where "Instance_set Instance_zero inst = Inr tmp"
      using Instance_set_total by blast
    then show ?thesis using False Cons.IH [OF rest, of "i @ [tmp]"] by (simp add: v st)
  qed
qed

lemma Instances_set_Inr:
  "Instances_set i src = Inr r \<Longrightarrow> \<exists>ms. r = i @ ms \<and> list_all2 maps_to (retained src) ms"
  by (cases src) (auto simp: Instances_set_def retained_def dest: Instances_set_loop_Inr)

lemma Instances_set_total:
  "sources_ok src \<Longrightarrow> \<exists>r. Instances_set i src = Inr r"
  by (cases src) (auto simp: Instances_set_def sources_ok_def Instances_set_loop_total)

lemma example_instance_completes: "set_completes example_instance"
  by (simp add: set_completes_def no_nil_def example_instance_def)

lemma example_terminated_terminated: "terminated example_terminated"
  by (simp add: terminated_def example_terminated_def Int64Value_def)

lemma example_instance_running: "\<not> terminated example_instance"
  by (simp add: terminated_def example_instance_def Int64Value_def)

lemma example_source_ok: "sources_ok example_source"
proof -
  have "source_ok (Some example_terminated)"
    using example_terminated_terminated
    by (simp add: source_ok_def) (simp add: example_terminated_def)
  moreover have "source_ok (Some example_instance)"
    using example_instance_completes
    by (simp add: source_ok_def) (simp add: example_instance_def)
  ultimately show ?thesis by (simp add: sources_ok_def example_source_def)
qed

lemma example_source_retained: "retained example_source = [example_instance]"
  using example_terminated_terminated example_instance_running
  by (simp add: retained_def example_source_def)

lemma example_source_mapped: "Instances_set [] example_source = Inr [example_mapped]"
proof -
  have "ec2_State example_terminated = Some \<lparr>Code = Some 48\<rparr>"
    by (simp add: example_terminated_def)
  moreover have "ec2_State example_instance = Some \<lparr>Code = Some 16\<rparr>"
    by (simp add: example_instance_def)
  ultimately show ?thesis
    by (simp add: Instances_set_def example_source_def Int64Value_def example_instance_mapped)
qed

lemma set_Reservations_Inr:
  "set_Reservations i rsvs = Inr r \<Longrightarrow>
     \<exists>ms. r = i @ ms \<and> list_all2 maps_to (reservations_retained rsvs) ms"
proof (induction rsvs arbitrary: i)
  case Nil
  then show ?case by (simp add: reservations_retained_def)
next
  case (Cons rsv rsvs)
  from Cons.prems obtain x i' where rsv: "rsv = Some x"
    and 1: "Instances_set i (rsv_Instances x) = Inr i'"
    and 2: "set_Reservations i' rsvs = Inr r"
    by (auto split: option.splits sum.splits)
  from Instances_set_Inr [OF 1] obtain ms1 where i': "i' = i @ ms1"
    and a1: "list_all2 maps_to (retained (rsv_Instances x)) ms1"
    by blast
  from Cons.IH [OF 2] obtain ms2 where r: "r = i' @ ms2"
    and a2: "list_all2 maps_to (reservations_retained rsvs) ms2"
    by blast
  have "r = i @ (ms1 @ ms2)" by (simp add: r i')
  moreover have "list_all2 maps_to (reservations_retained (rsv # rsvs)) (ms1 @ ms2)"
    using a1 a2 by (simp add: reservations_retained_def rsv list_all2_appendI)
  ultimately show ?case by blast
qed

lemma set_Reservations_total:
  "list_all reservation_ok rsvs \<Longrightarrow> \<exists>r. set_Reservations i rsvs = Inr r"
proof (induction rsvs arbitrary: i)
  case Nil
  show ?case by simp
next
  case (Cons rsv rsvs)
  from Cons.prems have ok: "reservation_ok rsv" and rest: "list_all reservation_ok rsvs"
    by simp_all
  from ok obtain x where rsv: "rsv = Some x" and s: "sources_ok (rsv_Instances x)"
    by (auto simp: reservation_ok_def split: option.splits)
  from Instances_set_total [OF s] obtain i' where "Instances_set i (rsv_Instances x) = Inr i'"
    by blast
  then show ?case using Cons.IH [OF rest, of i'] by (simp add: rsv)
qed

lemma GetInstances_loop_serves:
  assumes "serves c w opt pages w_end" and "list_all page_ok pages"
  shows "\<exists>ms. GetInstances_loop c acc opt out w
                 = Some (Inr (Some (acc @ ms), None), out @ printed_tokens pages, w_end) \<and>
              list_all2 maps_to (concat (map page_retained pages)) ms"
  using assms
proof (induction pages arbitrary: w opt acc out)
  case Nil
  then show ?case by simp
next
  case (Cons page pages)
  from Cons.prems(1) obtain w' where call: "DescribeInstances c w opt = ((Some page, None), w')"
    and tok: "case out_NextToken page of
                None \<Rightarrow> pages = [] \<and> w_end = w'
              | Some tok \<Rightarrow> serves c w' (opt\<lparr>in_NextToken := Some tok\<rparr>) pages w_end"
    by (auto split: prod.splits)
  from Cons.prems(2) have "page_ok page" and oks: "list_all page_ok pages"
    by simp_all
  then have ok: "list_all reservation_ok (Reservations page)"
    by (simp add: page_ok_def)
  from set_Reservations_total [OF ok] obtain acc' where
    acc': "set_Reservations acc (Reservations page) = Inr acc'"
    by blast
  from set_Reservations_Inr [OF acc'] obtain ms1 where ms1: "acc' = acc @ ms1"
    and a1: "list_all2 maps_to (page_retained page) ms1"
    unfolding page_retained_def by blast
  show ?case
  proof (cases "out_NextToken page")
    case None
    with tok have e: "pages = []" "w_end = w'" by simp_all
    have "GetInstances_loop c acc opt out w = Some (Inr (Some acc', None), out, w')"
      by (subst GetInstances_loop.simps) (simp add: call acc' None)
    then show ?thesis using a1 ms1 e None by (simp add: printed_tokens_def)
  next
    case (Some t)
    with tok have s: "serves c w' (opt\<lparr>in_NextToken := Some t\<rparr>) pages w_end" by simp
    from Cons.IH [OF s oks, of acc' "out @ [t]"] obtain ms2 where
      l: "GetInstances_loop c acc' (opt\<lparr>in_NextToken := Some t\<rparr>) (out @ [t]) w'
            = Some (Inr (Some (acc' @ ms2), None), (out @ [t]) @ printed_tokens pages, w_end)"
      and a2: "list_all2 maps_to (concat (map page_retained pages)) ms2"
      by blast
    have "GetInstances_loop c acc opt out w
            = GetInstances_loop c acc' (opt\<lparr>in_NextToken := Some t\<rparr>) (out @ [t]) w'"
      by (subst GetInstances_loop.simps) (simp add: call acc' Some StringValue_def)
    with l have "GetInstances_loop c acc opt out w
            = Some (Inr (Some (acc @ (ms1 @ ms2)), None),
                    out @ printed_tokens (page # pages), w_end)"
      by (simp add: ms1 printed_tokens_def Some)
    moreover have "list_all2 maps_to (concat (map page_retained (page # pages))) (ms1 @ ms2)"
      using a1 a2 by (simp add: list_all2_appendI)
    ultimately show ?thesis by blast
  qed
qed

lemma example_pages_ok: "list_all page_ok [example_page1, example_page2]"
  using example_source_ok example_instance_completes
  by (simp add: page_ok_def reservation_ok_def example_page1_def example_page2_def
      sources_ok_def source_ok_def)
    (simp add: example_instance_def)

lemma example_pages_served:
  "serves (example_EC2 (Some example_page2, None)) 0 \<lparr>in_NextToken = None\<rparr>
     [example_page1, example_page2] (Suc (Suc 0))"
proof -
  have 1: "out_NextToken example_page1 = Some ''t1''"
    by (simp add: example_page1_def)
  have 2: "out_NextToken example_page2 = None"
    by (simp add: example_page2_def)
  show ?thesis by (simp add: example_EC2_def 1 2)
qed

lemma example_pages_retained:
  "concat (map page_retained [example_page1, example_page2])
     = [example_instance, example_instance]"
  using example_source_retained example_instance_running
  by (simp add: page_retained_def reservations_retained_def example_page1_def
      example_page2_def retained_def)

lemma example_pages_tokens: "printed_tokens [example_page1, example_page2] = [''t1'']"
  by (simp add: printed_tokens_def example_page1_def example_page2_def)

section \<open>Facts about errors of the API\<close>





















section \<open>Facts about the template\<close>

lemma example_unset_mapped:
  "Instance_set Instance_zero example_unset = Inr (Instance_zero\<lparr>Monitoring := Some True\<rparr>)"
  by (simp add: Instance_set_def set_IamInstanceProfile_eq mapped_profile_def
      set_Monitoring_def set_SecurityGroups_def set_Tags_def
      example_unset_def Instance_zero_def StringValue_def)

lemma nonempty_NL [simp]: "NL @ xs \<noteq> []"
  by (simp add: NL_def)

lemma example_mapped_text:
  "tmpl_instance example_mapped
     = NL @ TAB @ ''resource '' @ dquote @ ''aws_instance'' @ dquote @ '' '' @ dquote
         @ ''i-1_instance'' @ dquote @ '' {''
       @ NL @ TAB @ TAB @ ''ami = '' @ dquote @ ''ami-1'' @ dquote
       @ NL @ TAB @ TAB @ ''instance_type = '' @ dquote @ ''t2.micro'' @ dquote
       @ NL @ TAB @ TAB @ ''ebs_optimized = false''
       @ NL @ TAB @ TAB @ ''iam_instance_profile = '' @ dquote @ ''myprofile'' @ dquote
       @ NL @ TAB @ TAB @ ''monitoring = false''
       @ NL @ TAB @ TAB @ ''source_dest_check = true''
       @ NL @ ''    vpc_security_group_ids = ['' @ dquote @ ''default'' @ dquote @ '']''
       @ NL @ ''    ''
       @ NL @ ''    tags {'' @ NL @ ''      ''
       @ NL @ ''        '' @ dquote @ ''Name'' @ dquote @ '' = '' @ dquote @ ''a'' @ dquote
       @ NL @ ''        '' @ dquote @ ''Name'' @ dquote @ '' = '' @ dquote @ ''b'' @ dquote
       @ NL @ ''    }'' @ NL @ ''    ''
       @ NL @ TAB @ ''}''"
proof -
  have j: "snd (joinStringSlice '','' [''default'']) = dquote @ ''default'' @ dquote"
    by (simp add: joinStringSlice_def Let_def joinStringSlice_loop_eq quote_def
        HasPrefix_def dquote_def)
  show ?thesis
    by (simp add: tmpl_instance_def tmpl_resource_def tmpl_ami_def tmpl_instance_type_def
        tmpl_ebs_optimized_def tmpl_iam_instance_profile_def tmpl_key_name_def
        tmpl_monitoring_def tmpl_source_dest_check_def tmpl_subnet_id_def
        tmpl_vpc_security_group_ids_def tmpl_tags_def tmpl_tag_def slice_len_def
        StringValueSlice_def StringValue_def print_string_def print_bool_def print_key_def
        example_mapped_def j range_map_def uintptr_def dquote_def NL_def TAB_def)
qed

section \<open>The claims\<close>

text \<open>
  C2. \<open>handleError\<close> returns nil for a provider error whose code is one of the six codes
  of the allow-list, and returns the error it was given in every other case: a provider
  error with another code, an error that is not a provider error, and nil.
\<close>

theorem handleError_allow_list:
  "(code \<in> set allow_listed \<longrightarrow> handleError (Some (AwsErr code msg)) = None) \<and>
   (code \<notin> set allow_listed \<longrightarrow>
      handleError (Some (AwsErr code msg)) = Some (AwsErr code msg)) \<and>
   handleError (Some (OtherErr m)) = Some (OtherErr m) \<and>
   handleError None = None"
  by (simp add: handleError_def allow_listed_def)

theorem handleError_allow_list_witness:
  "''NoSuchCORSConfiguration'' \<in> set allow_listed \<and>
   handleError (Some (AwsErr ''NoSuchCORSConfiguration'' ''none'')) = None \<and>
   ''AccessDenied'' \<notin> set allow_listed \<and>
   handleError (Some (AwsErr ''AccessDenied'' ''denied''))
     = Some (AwsErr ''AccessDenied'' ''denied'')"
proof -
  have a: "''NoSuchCORSConfiguration'' \<in> set allow_listed"
    by (simp add: allow_listed_def)
  have b: "''AccessDenied'' \<notin> set allow_listed"
    by (simp add: allow_listed_def)
  show ?thesis
    using a b handleError_allow_list [of "''NoSuchCORSConfiguration''" "''none''"]
      handleError_allow_list [of "''AccessDenied''" "''denied''"]
    by blast
qed

text \<open>
  C10. \<open>joinStringSlice\<close> changes the slice it is given: after the call the slice has
  the same length and every element is the quoted form of what it was (itself if it is
  not empty and begins and ends with a double quote, otherwise put between two double
  quotes), and the string returned is those quoted elements with the separator between
  neighbours.
\<close>

theorem joinStringSlice_mutates:
  "joinStringSlice sep src = (map quoted src, joined (map quoted src) sep) \<and>
   length (fst (joinStringSlice sep src)) = length src \<and>
   (\<forall>k < length src. fst (joinStringSlice sep src) ! k = quoted (src ! k))"
proof -
  have "quote = quoted"
    by (rule ext) (rule quote_quoted)
  then have "joinStringSlice sep src = (map quoted src, joined (map quoted src) sep)"
    by (simp add: joinStringSlice_def Let_def joinStringSlice_loop_eq Join_joined)
  then show ?thesis by simp
qed

theorem joinStringSlice_mutates_witness:
  "joinStringSlice '','' [''a'', [CHR 0x22, CHR ''b'', CHR 0x22], [], [CHR 0x22], [CHR ''c'', CHR 0x22]]
     = ([[CHR 0x22, CHR ''a'', CHR 0x22], [CHR 0x22, CHR ''b'', CHR 0x22], [CHR 0x22, CHR 0x22],
         [CHR 0x22], [CHR 0x22, CHR ''c'', CHR 0x22, CHR 0x22]],
        [CHR 0x22, CHR ''a'', CHR 0x22, CHR '','', CHR 0x22, CHR ''b'', CHR 0x22, CHR '','',
         CHR 0x22, CHR 0x22, CHR '','', CHR 0x22, CHR '','',
         CHR 0x22, CHR ''c'', CHR 0x22, CHR 0x22])"
  using joinStringSlice_mutates
    [of "'',''" "[''a'', [CHR 0x22, CHR ''b'', CHR 0x22], [], [CHR 0x22], [CHR ''c'', CHR 0x22]]"]
  by (simp add: quoted_def joined_def)

text \<open>
  C5. Whenever \<open>Instance.set\<close> completes on a source instance with monitoring
  information \<open>mon\<close>, the mapped \<open>Monitoring\<close> is a pointer to \<open>false\<close> if the state string
  is \<open>disabled\<close> and a pointer to \<open>true\<close> for any other state, a nil state included.
\<close>

theorem Instance_set_Monitoring:
  assumes "Instance_set i src = Inr r" and "ec2_Monitoring src = Some mon"
  shows "Monitoring r = Some (Monitoring_State mon \<noteq> Some ''disabled'')"
proof -
  have "Monitoring r = Some (StringValue (Monitoring_State mon) \<noteq> ''disabled'')"
    using assms by (rule Instance_set_fields)
  then show ?thesis by (cases "Monitoring_State mon") (auto simp: StringValue_def)
qed

theorem Instance_set_Monitoring_witness:
  "Instance_set Instance_zero example_instance = Inr example_mapped \<and>
   ec2_Monitoring example_instance = Some \<lparr>Monitoring_State = Some ''disabled''\<rparr> \<and>
   Monitoring example_mapped = Some False"
proof -
  have m: "ec2_Monitoring example_instance = Some \<lparr>Monitoring_State = Some ''disabled''\<rparr>"
    by (simp add: example_instance_def)
  show ?thesis
    using example_instance_mapped m Instance_set_Monitoring [OF example_instance_mapped m]
    by simp
qed

text \<open>
  C6. Whenever \<open>Instance.set\<close> completes on a source instance with a profile whose ARN
  is not nil, the mapped \<open>IamInstanceProfile\<close> is the part of the ARN after its last
  \<open>/\<close> (the whole ARN if it has none); the ARN of the specification maps to \<open>myprofile\<close>.
\<close>

theorem Instance_set_profile_name:
  assumes "Instance_set i src = Inr r" and "ec2_IamInstanceProfile src = Some prof"
  shows "(Arn prof = Some (a @ ''/'' @ b) \<and> CHR ''/'' \<notin> set b \<longrightarrow>
            IamInstanceProfile r = Some b) \<and>
         (Arn prof = Some b \<and> CHR ''/'' \<notin> set b \<longrightarrow> IamInstanceProfile r = Some b) \<and>
         (Arn prof = Some ''arn:aws:iam::123456789012:instance-profile/myprofile'' \<longrightarrow>
            IamInstanceProfile r = Some ''myprofile'')"
proof -
  have p: "IamInstanceProfile r = mapped_profile i src"
    using assms(1) by (rule Instance_set_fields)
  have gen: "IamInstanceProfile r = Some y"
    if "Arn prof = Some (x @ ''/'' @ y)" and "CHR ''/'' \<notin> set y" for x y
    using that assms(2) by (simp add: p mapped_profile_def last_Split)
  have whole: "IamInstanceProfile r = Some y" if "Arn prof = Some y" and "CHR ''/'' \<notin> set y" for y
    using that assms(2) by (simp add: p mapped_profile_def Split_no_sep)
  have ex: "IamInstanceProfile r = Some ''myprofile''"
    if "Arn prof = Some ''arn:aws:iam::123456789012:instance-profile/myprofile''"
    using gen [of "''arn:aws:iam::123456789012:instance-profile''" "''myprofile''"] that
    by simp
  from gen whole ex show ?thesis by blast
qed

theorem Instance_set_profile_name_witness:
  "Instance_set Instance_zero example_instance = Inr example_mapped \<and>
   ec2_IamInstanceProfile example_instance
     = Some \<lparr>Arn = Some ''arn:aws:iam::123456789012:instance-profile/myprofile''\<rparr> \<and>
   IamInstanceProfile example_mapped = Some ''myprofile''"
proof -
  have p: "ec2_IamInstanceProfile example_instance
     = Some \<lparr>Arn = Some ''arn:aws:iam::123456789012:instance-profile/myprofile''\<rparr>"
    by (simp add: example_instance_def)
  show ?thesis
    using example_instance_mapped p
      Instance_set_profile_name [OF example_instance_mapped p, of "[]" "[]"]
    by simp
qed

text \<open>
  C9. \<open>Instance.set\<close> is partial. On every source instance whose \<open>Monitoring\<close> is nil it
  panics with a nil dereference, whatever the receiver and the other fields are, so no
  mapped struct with \<open>Monitoring\<close> unset comes out; and whenever it completes, the
  source's \<open>Monitoring\<close> was not nil.
\<close>

theorem Instance_set_partial:
  "(ec2_Monitoring src = None \<longrightarrow> Instance_set i src = Inl NilDereference) \<and>
   (Instance_set i src = Inr r \<longrightarrow> ec2_Monitoring src \<noteq> None)"
proof (intro conjI impI)
  assume "ec2_Monitoring src = None"
  then show "Instance_set i src = Inl NilDereference"
    by (rule Instance_set_nil_Monitoring)
next
  assume "Instance_set i src = Inr r"
  then show "ec2_Monitoring src \<noteq> None"
    by (rule Instance_set_fields)
qed

theorem Instance_set_partial_witness:
  "ec2_Monitoring (example_instance\<lparr>ec2_Monitoring := None\<rparr>) = None \<and>
   Instance_set Instance_zero (example_instance\<lparr>ec2_Monitoring := None\<rparr>) = Inl NilDereference \<and>
   Instance_set Instance_zero example_instance = Inr example_mapped \<and>
   ec2_Monitoring example_instance \<noteq> None"
  using Instance_set_partial [of "example_instance\<lparr>ec2_Monitoring := None\<rparr>" Instance_zero]
    Instance_set_partial [of example_instance Instance_zero example_mapped]
    example_instance_mapped
  by simp

text \<open>
  C7. The keys of \<open>Instance.Tags\<close> are pointers. Whenever \<open>Instance.set\<close> completes on a
  source instance with two tags whose keys hold the same text \<open>s\<close> at two addresses, the
  mapped map has an entry at each of the two addresses, and no two of its entries have
  the same address: the two tags do not collide. If they are the only tags, the map is
  exactly their two entries.
\<close>

theorem Instance_set_Tags_by_reference:
  assumes "Instance_set i src = Inr r" and "ec2_Tags src = Some ts"
    and "Some t1 \<in> set ts" and "Some t2 \<in> set ts"
    and "Key t1 = Some (StrRef a1 s)" and "Key t2 = Some (StrRef a2 s)" and "a1 \<noteq> a2"
  shows "\<exists>m. Tags r = Some m \<and> distinct (key_addrs m) \<and>
           Some a1 \<in> set (key_addrs m) \<and> Some a2 \<in> set (key_addrs m) \<and>
           (ts = [Some t1, Some t2] \<longrightarrow> m = [(Key t1, Value t1), (Key t2, Value t2)])"
proof -
  have T: "Tags r = mapped_Tags i src"
    using assms(1) by (rule Instance_set_fields)
  obtain m where m: "assign_Tags [] ts = Inr m" and r: "Tags r = Some m"
  proof (cases "assign_Tags [] ts")
    case (Inl p)
    obtain i' where "set_Tags i' src = Inr r"
      using assms(1) by (auto simp: Instance_set_def split: sum.splits)
    with Inl assms(2) show ?thesis by (simp add: set_Tags_def)
  next
    case (Inr m)
    with T assms(2) that show ?thesis by (simp add: mapped_Tags_def)
  qed
  have d: "distinct (key_addrs m)"
    using m by (rule assign_Tags_distinct) (simp add: key_addrs_def)
  have k: "set (key_addrs m) = {map_option address (Key t) |t. Some t \<in> set ts}"
    using assign_Tags_keys [OF m] by (simp add: key_addrs_def)
  have k1: "Some a1 \<in> set (key_addrs m)"
    unfolding k using assms(3,5) by force
  have k2: "Some a2 \<in> set (key_addrs m)"
    unfolding k using assms(4,6) by force
  have two: "m = [(Key t1, Value t1), (Key t2, Value t2)]" if "ts = [Some t1, Some t2]"
    using m that assms(5,6,7) by (simp add: ptr_eq_def)
  from r d k1 k2 two show ?thesis by blast
qed

theorem Instance_set_Tags_by_reference_witness:
  "Instance_set Instance_zero example_instance = Inr example_mapped \<and>
   Tags example_mapped
     = Some [(Some (StrRef 1 ''Name''), Some ''a''), (Some (StrRef 2 ''Name''), Some ''b'')] \<and>
   distinct (key_addrs [(Some (StrRef 1 ''Name''), Some ''a''), (Some (StrRef 2 ''Name''), Some ''b'')])"
proof -
  let ?t1 = "\<lparr>Key = Some (StrRef 1 ''Name''), Value = Some ''a''\<rparr>"
  let ?t2 = "\<lparr>Key = Some (StrRef 2 ''Name''), Value = Some ''b''\<rparr>"
  have ts: "ec2_Tags example_instance = Some [Some ?t1, Some ?t2]"
    by (simp add: example_instance_def)
  have "\<exists>m. Tags example_mapped = Some m \<and> distinct (key_addrs m) \<and>
           Some 1 \<in> set (key_addrs m) \<and> Some 2 \<in> set (key_addrs m) \<and>
           ([Some ?t1, Some ?t2] = [Some ?t1, Some ?t2] \<longrightarrow>
              m = [(Key ?t1, Value ?t1), (Key ?t2, Value ?t2)])"
    by (rule Instance_set_Tags_by_reference [OF example_instance_mapped ts]) simp_all
  then show ?thesis using example_instance_mapped by auto
qed

text \<open>
  C4. Whenever \<open>Instances.set\<close> completes, what it appended to the collection is, in
  order, the mapped struct of every source instance whose state code is not 48, and
  nothing for those whose state code is 48. It completes whenever none of the pointers
  it dereferences is nil.
\<close>

theorem Instances_set_terminated:
  "(Instances_set i src = Inr r \<longrightarrow>
      (\<exists>ms. r = i @ ms \<and> list_all2 maps_to (retained src) ms)) \<and>
   (sources_ok src \<longrightarrow>
      (\<exists>ms. Instances_set i src = Inr (i @ ms) \<and> list_all2 maps_to (retained src) ms))"
proof (intro conjI impI)
  assume "Instances_set i src = Inr r"
  then show "\<exists>ms. r = i @ ms \<and> list_all2 maps_to (retained src) ms"
    by (rule Instances_set_Inr)
next
  assume "sources_ok src"
  then obtain r' where r': "Instances_set i src = Inr r'"
    using Instances_set_total by blast
  then obtain ms where "r' = i @ ms" and "list_all2 maps_to (retained src) ms"
    using Instances_set_Inr by blast
  with r' show "\<exists>ms. Instances_set i src = Inr (i @ ms) \<and> list_all2 maps_to (retained src) ms"
    by blast
qed

theorem Instances_set_terminated_witness:
  "sources_ok example_source \<and>
   retained example_source = [example_instance] \<and>
   (\<exists>ms. Instances_set [] example_source = Inr ([] @ ms) \<and>
         list_all2 maps_to (retained example_source) ms) \<and>
   Instances_set [] example_source = Inr [example_mapped]"
proof -
  have ok: "sources_ok example_source"
    by (simp add: example_source_ok)
  have "\<exists>ms. Instances_set [] example_source = Inr ([] @ ms) \<and>
         list_all2 maps_to (retained example_source) ms"
    using Instances_set_terminated [of "[]" example_source "[]"] ok by simp
  then show ?thesis
    using ok example_source_retained example_source_mapped by simp
qed

text \<open>
  C3. If the API serves \<open>N\<close> pages without error, each but the last with a token that
  leads to the next, and no page makes the mapping dereference nil, then \<open>GetInstances\<close>
  returns, with no error, a collection that is in one-to-one correspondence, in order,
  with the retained instances of the first page's reservations followed by those of the
  second and so on: each entry is the mapped struct of its source instance.
\<close>

theorem GetInstances_pages:
  assumes "serves c w \<lparr>in_NextToken = None\<rparr> pages w_end" and "list_all page_ok pages"
  shows "\<exists>ms. GetInstances c w = Some (Inr (Some ms, None), printed_tokens pages, w_end) \<and>
              list_all2 maps_to (concat (map page_retained pages)) ms"
  using GetInstances_loop_serves [OF assms, of "[]" "[]"]
  by (simp add: GetInstances_def)

theorem GetInstances_pages_witness:
  "serves (example_EC2 (Some example_page2, None)) 0 \<lparr>in_NextToken = None\<rparr>
     [example_page1, example_page2] (Suc (Suc 0)) \<and>
   list_all page_ok [example_page1, example_page2] \<and>
   GetInstances (example_EC2 (Some example_page2, None)) 0
     = Some (Inr (Some [example_mapped, example_mapped], None), [''t1''], Suc (Suc 0))"
proof -
  obtain ms where
    g: "GetInstances (example_EC2 (Some example_page2, None)) 0
          = Some (Inr (Some ms, None), printed_tokens [example_page1, example_page2],
                  Suc (Suc 0))"
    and a: "list_all2 maps_to (concat (map page_retained [example_page1, example_page2])) ms"
    using GetInstances_pages [OF example_pages_served example_pages_ok] by blast
  from a have "ms = [example_mapped, example_mapped]"
    unfolding example_pages_retained
    by (auto simp: list_all2_Cons1 maps_to_def example_instance_mapped)
  with g example_pages_served example_pages_ok show ?thesis
    by (simp add: example_pages_tokens)
qed



text \<open>
  C1, as stated, fails. On a source instance whose image id, instance type and monitoring
  state are unset, \<open>Instance.set\<close> leaves \<open>Monitoring\<close> set (a pointer to \<open>true\<close>), and the
  template emits the lines \<open>monitoring = true\<close>, \<open>ami = "<nil>"\<close> and
  \<open>instance_type = "<nil>"\<close>.
\<close>

theorem unset_field_counterexample:
  "ec2_ImageId example_unset = None \<and>
   ec2_InstanceType example_unset = None \<and>
   ec2_Monitoring example_unset = Some \<lparr>Monitoring_State = None\<rparr> \<and>
   Instance_set Instance_zero example_unset = Inr (Instance_zero\<lparr>Monitoring := Some True\<rparr>) \<and>
   Monitoring (Instance_zero\<lparr>Monitoring := Some True\<rparr>) = Some True \<and>
   tmpl_monitoring (Instance_zero\<lparr>Monitoring := Some True\<rparr>)
     = NL @ TAB @ TAB @ ''monitoring = true'' \<and>
   tmpl_ami (Instance_zero\<lparr>Monitoring := Some True\<rparr>)
     = NL @ TAB @ TAB @ ''ami = '' @ dquote @ ''<nil>'' @ dquote \<and>
   tmpl_instance_type (Instance_zero\<lparr>Monitoring := Some True\<rparr>)
     = NL @ TAB @ TAB @ ''instance_type = '' @ dquote @ ''<nil>'' @ dquote"
  using example_unset_mapped
  by (simp add: example_unset_def Instance_zero_def tmpl_monitoring_def tmpl_ami_def
      tmpl_instance_type_def print_bool_def print_string_def)

text \<open>
  C1, amended. Whenever \<open>Instance.set\<close> completes on the zero \<open>Instance\<close>:
  each of \<open>EbsOptimized\<close>, \<open>IamInstanceProfile\<close> (the profile or its ARN nil), \<open>KeyName\<close>,
  \<open>SourceDestCheck\<close>, \<open>SubnetId\<close>, \<open>SecurityGroups\<close> and \<open>Tags\<close> that is nil in the source is
  nil in the mapped struct, and the template emits no text for its attribute;
  \<open>ImageId\<close>, \<open>InstanceId\<close>, \<open>InstanceType\<close> and \<open>VpcId\<close> that are nil in the source are nil in
  the mapped struct; \<open>Monitoring\<close> is always set and its line always emitted, and the
  \<open>ami\<close> and \<open>instance_type\<close> lines are emitted whatever the fields are. The text of an
  instance is the concatenation of these parts.
\<close>

theorem unset_fields_stay_unset:
  assumes "Instance_set Instance_zero src = Inr r"
  shows "(ec2_EbsOptimized src = None \<longrightarrow> EbsOptimized r = None \<and> tmpl_ebs_optimized r = []) \<and>
         (ec2_IamInstanceProfile src = None \<longrightarrow>
            IamInstanceProfile r = None \<and> tmpl_iam_instance_profile r = []) \<and>
         (ec2_IamInstanceProfile src = Some prof \<and> Arn prof = None \<longrightarrow>
            IamInstanceProfile r = None \<and> tmpl_iam_instance_profile r = []) \<and>
         (ec2_KeyName src = None \<longrightarrow> KeyName r = None \<and> tmpl_key_name r = []) \<and>
         (ec2_SourceDestCheck src = None \<longrightarrow>
            SourceDestCheck r = None \<and> tmpl_source_dest_check r = []) \<and>
         (ec2_SubnetId src = None \<longrightarrow> SubnetID r = None \<and> tmpl_subnet_id r = []) \<and>
         (ec2_SecurityGroups src = None \<longrightarrow>
            SecurityGroups r = None \<and> tmpl_vpc_security_group_ids r = []) \<and>
         (ec2_Tags src = None \<longrightarrow> Tags r = None \<and> tmpl_tags r = []) \<and>
         (ec2_ImageId src = None \<longrightarrow> ImageID r = None) \<and>
         (ec2_InstanceId src = None \<longrightarrow> InstanceID r = None) \<and>
         (ec2_InstanceType src = None \<longrightarrow> InstanceType r = None) \<and>
         (ec2_VpcId src = None \<longrightarrow> VpcID r = None) \<and>
         Monitoring r \<noteq> None \<and> tmpl_monitoring r \<noteq> [] \<and>
         tmpl_ami r \<noteq> [] \<and> tmpl_instance_type r \<noteq> [] \<and>
         tmpl_instance r =
           tmpl_resource r @ tmpl_ami r @ tmpl_instance_type r @ tmpl_ebs_optimized r
             @ tmpl_iam_instance_profile r @ tmpl_key_name r @ tmpl_monitoring r
             @ tmpl_source_dest_check r @ tmpl_subnet_id r @ tmpl_vpc_security_group_ids r
             @ NL @ ''    '' @ tmpl_tags r @ NL @ TAB @ ''}''"
proof -
  note f = Instance_set_fields [OF assms]
  have ebs: "EbsOptimized r = ec2_EbsOptimized src" by (rule f)
  have iam: "IamInstanceProfile r = mapped_profile Instance_zero src" by (rule f)
  have img: "ImageID r = ec2_ImageId src" by (rule f)
  have iid: "InstanceID r = ec2_InstanceId src" by (rule f)
  have ity: "InstanceType r = ec2_InstanceType src" by (rule f)
  have key: "KeyName r = ec2_KeyName src" by (rule f)
  have sdc: "SourceDestCheck r = ec2_SourceDestCheck src" by (rule f)
  have sub: "SubnetID r = ec2_SubnetId src" by (rule f)
  have vpc: "VpcID r = ec2_VpcId src" by (rule f)
  have tag: "Tags r = mapped_Tags Instance_zero src" by (rule f)
  have sgs: "SecurityGroups r = None" if "ec2_SecurityGroups src = None"
    using f(8) [OF that] by (simp add: Instance_zero_def)
  obtain mon where mon: "ec2_Monitoring src = Some mon"
    using f(13) by (cases "ec2_Monitoring src") auto
  have m: "Monitoring r \<noteq> None"
    using f(7) [OF mon] by simp
  have 1: "ec2_EbsOptimized src = None \<longrightarrow> EbsOptimized r = None \<and> tmpl_ebs_optimized r = []"
    by (simp add: ebs tmpl_ebs_optimized_def)
  have 2: "ec2_IamInstanceProfile src = None \<longrightarrow>
            IamInstanceProfile r = None \<and> tmpl_iam_instance_profile r = []"
    by (simp add: iam mapped_profile_def Instance_zero_def tmpl_iam_instance_profile_def)
  have 3: "ec2_IamInstanceProfile src = Some prof \<and> Arn prof = None \<longrightarrow>
            IamInstanceProfile r = None \<and> tmpl_iam_instance_profile r = []"
    by (simp add: iam mapped_profile_def Instance_zero_def tmpl_iam_instance_profile_def)
  have 4: "ec2_KeyName src = None \<longrightarrow> KeyName r = None \<and> tmpl_key_name r = []"
    by (simp add: key tmpl_key_name_def)
  have 5: "ec2_SourceDestCheck src = None \<longrightarrow>
            SourceDestCheck r = None \<and> tmpl_source_dest_check r = []"
    by (simp add: sdc tmpl_source_dest_check_def)
  have 6: "ec2_SubnetId src = None \<longrightarrow> SubnetID r = None \<and> tmpl_subnet_id r = []"
    by (simp add: sub tmpl_subnet_id_def)
  have 7: "ec2_SecurityGroups src = None \<longrightarrow>
            SecurityGroups r = None \<and> tmpl_vpc_security_group_ids r = []"
    using sgs by (simp add: tmpl_vpc_security_group_ids_def slice_len_def)
  have 8: "ec2_Tags src = None \<longrightarrow> Tags r = None \<and> tmpl_tags r = []"
    by (simp add: tag mapped_Tags_def Instance_zero_def tmpl_tags_def slice_len_def)
  have 9: "ec2_ImageId src = None \<longrightarrow> ImageID r = None"
    "ec2_InstanceId src = None \<longrightarrow> InstanceID r = None"
    "ec2_InstanceType src = None \<longrightarrow> InstanceType r = None"
    "ec2_VpcId src = None \<longrightarrow> VpcID r = None"
    by (simp_all add: img iid ity vpc)
  have 10: "tmpl_monitoring r \<noteq> []"
    using m by (simp add: tmpl_monitoring_def)
  have 11: "tmpl_ami r \<noteq> []" "tmpl_instance_type r \<noteq> []"
    by (simp_all add: tmpl_ami_def tmpl_instance_type_def)
  have 12: "tmpl_instance r =
           tmpl_resource r @ tmpl_ami r @ tmpl_instance_type r @ tmpl_ebs_optimized r
             @ tmpl_iam_instance_profile r @ tmpl_key_name r @ tmpl_monitoring r
             @ tmpl_source_dest_check r @ tmpl_subnet_id r @ tmpl_vpc_security_group_ids r
             @ NL @ ''    '' @ tmpl_tags r @ NL @ TAB @ ''}''"
    by (simp add: tmpl_instance_def)
  from 1 2 3 4 5 6 7 8 9 m 10 11 12 show ?thesis
    by (intro conjI)
qed


theorem unset_fields_stay_unset_witness:
  "Instance_set Instance_zero example_unset = Inr (Instance_zero\<lparr>Monitoring := Some True\<rparr>) \<and>
   ec2_EbsOptimized example_unset = None \<and>
   tmpl_ebs_optimized (Instance_zero\<lparr>Monitoring := Some True\<rparr>) = [] \<and>
   ec2_IamInstanceProfile example_unset = None \<and>
   tmpl_iam_instance_profile (Instance_zero\<lparr>Monitoring := Some True\<rparr>) = [] \<and>
   ec2_KeyName example_unset = None \<and>
   tmpl_key_name (Instance_zero\<lparr>Monitoring := Some True\<rparr>) = [] \<and>
   ec2_SourceDestCheck example_unset = None \<and>
   tmpl_source_dest_check (Instance_zero\<lparr>Monitoring := Some True\<rparr>) = [] \<and>
   ec2_SubnetId example_unset = None \<and>
   tmpl_subnet_id (Instance_zero\<lparr>Monitoring := Some True\<rparr>) = [] \<and>
   ec2_SecurityGroups example_unset = None \<and>
   tmpl_vpc_security_group_ids (Instance_zero\<lparr>Monitoring := Some True\<rparr>) = [] \<and>
   ec2_Tags example_unset = None \<and>
   tmpl_tags (Instance_zero\<lparr>Monitoring := Some True\<rparr>) = [] \<and>
   tmpl_instance (Instance_zero\<lparr>Monitoring := Some True\<rparr>)
     = NL @ TAB @ ''resource '' @ dquote @ ''aws_instance'' @ dquote @ '' '' @ dquote
         @ ''<nil>_instance'' @ dquote @ '' {''
       @ NL @ TAB @ TAB @ ''ami = '' @ dquote @ ''<nil>'' @ dquote
       @ NL @ TAB @ TAB @ ''instance_type = '' @ dquote @ ''<nil>'' @ dquote
       @ NL @ TAB @ TAB @ ''monitoring = true''
       @ NL @ ''    '' @ NL @ TAB @ ''}'' \<and>
   Instance_set Instance_zero example_instance = Inr example_mapped \<and>
   tmpl_instance example_mapped
     = NL @ TAB @ ''resource '' @ dquote @ ''aws_instance'' @ dquote @ '' '' @ dquote
         @ ''i-1_instance'' @ dquote @ '' {''
       @ NL @ TAB @ TAB @ ''ami = '' @ dquote @ ''ami-1'' @ dquote
       @ NL @ TAB @ TAB @ ''instance_type = '' @ dquote @ ''t2.micro'' @ dquote
       @ NL @ TAB @ TAB @ ''ebs_optimized = false''
       @ NL @ TAB @ TAB @ ''iam_instance_profile = '' @ dquote @ ''myprofile'' @ dquote
       @ NL @ TAB @ TAB @ ''monitoring = false''
       @ NL @ TAB @ TAB @ ''source_dest_check = true''
       @ NL @ ''    vpc_security_group_ids = ['' @ dquote @ ''default'' @ dquote @ '']''
       @ NL @ ''    ''
       @ NL @ ''    tags {'' @ NL @ ''      ''
       @ NL @ ''        '' @ dquote @ ''Name'' @ dquote @ '' = '' @ dquote @ ''a'' @ dquote
       @ NL @ ''        '' @ dquote @ ''Name'' @ dquote @ '' = '' @ dquote @ ''b'' @ dquote
       @ NL @ ''    }'' @ NL @ ''    ''
       @ NL @ TAB @ ''}''"
proof -
  have u: "ec2_EbsOptimized example_unset = None" "ec2_IamInstanceProfile example_unset = None"
    "ec2_KeyName example_unset = None" "ec2_SourceDestCheck example_unset = None"
    "ec2_SubnetId example_unset = None" "ec2_SecurityGroups example_unset = None"
    "ec2_Tags example_unset = None"
    by (simp_all add: example_unset_def)
  have t: "tmpl_resource (Instance_zero\<lparr>Monitoring := Some True\<rparr>)
             = NL @ TAB @ ''resource '' @ dquote @ ''aws_instance'' @ dquote @ '' '' @ dquote
                 @ ''<nil>_instance'' @ dquote @ '' {''"
    "tmpl_ami (Instance_zero\<lparr>Monitoring := Some True\<rparr>)
             = NL @ TAB @ TAB @ ''ami = '' @ dquote @ ''<nil>'' @ dquote"
    "tmpl_instance_type (Instance_zero\<lparr>Monitoring := Some True\<rparr>)
             = NL @ TAB @ TAB @ ''instance_type = '' @ dquote @ ''<nil>'' @ dquote"
    "tmpl_monitoring (Instance_zero\<lparr>Monitoring := Some True\<rparr>)
             = NL @ TAB @ TAB @ ''monitoring = true''"
    by (simp_all add: tmpl_resource_def tmpl_ami_def tmpl_instance_type_def tmpl_monitoring_def
        Instance_zero_def print_string_def print_bool_def)
  show ?thesis
    using unset_fields_stay_unset [OF example_unset_mapped] example_unset_mapped u
      example_instance_mapped example_mapped_text
    by (simp add: t)
qed

end
